theory Spec2Isabelle
  imports Main
begin

section \<open>Values of the host language\<close>

text \<open>
  An \<open>Error\<close> object of the host language, with the one property the module reads:
  \<open>message\<close>. Object identity of errors is not modelled; two errors are equal when their
  messages are.
\<close>

datatype js_error = Error (message: string)

text \<open>
  A value caught by \<open>catch (err)\<close>: either an \<open>Error\<close> instance or some other value,
  of which only \<open>String(err)\<close> is ever used.
\<close>

datatype thrown = ErrorObj js_error | NonError string

text \<open>\<open>err instanceof Error ? err : new Error(String(err))\<close>\<close>

fun toError :: "thrown \<Rightarrow> js_error" where
  "toError (ErrorObj e) = e"
| "toError (NonError s) = Error s"

text \<open>\<open>String.prototype.startsWith\<close> and \<open>String.prototype.includes\<close> on char lists.\<close>

fun startsWith :: "string \<Rightarrow> string \<Rightarrow> bool" where
  "startsWith s [] = True"
| "startsWith [] (c # cs) = False"
| "startsWith (d # ds) (c # cs) = (d = c \<and> startsWith ds cs)"

fun str_includes :: "string \<Rightarrow> string \<Rightarrow> bool" where
  "str_includes [] sub = (sub = [])"
| "str_includes (d # ds) sub = (startsWith (d # ds) sub \<or> str_includes ds sub)"

section \<open>Module state of the connection manager\<close>

text \<open>
  The fields of \<open>RedisClientOptions\<close> that the module or its tests name. A bare string
  given to \<open>connect\<close> is wrapped as the \<open>url\<close> field.
\<close>

record redis_client_options =
  url :: "string option"
  database :: "int option"

datatype connect_arg = OptionsObject redis_client_options | UrlString string

datatype promise_state = Pending | Fulfilled | Rejected js_error

text \<open>
  What the module does to the outside: calls on the client library and lines written with
  \<open>console.error\<close>. Clients and promises are referred to by the number they got when
  they were created.
\<close>

datatype effect =
    CreateClient nat "redis_client_options option"
  | RegisterHandler nat string
  | ConnectCall nat
  | QuitCall nat
  | ConsoleError string thrown

text \<open>
  The three module-level variables (\<open>client\<close>, \<open>connectionPromise\<close>,
  \<open>connectionError\<close>; \<open>None\<close> is \<open>null\<close>), and the objects they refer to:
  the \<open>isOpen\<close> property of every client object, whether the two JSON methods have been
  attached to it, the state of every promise, the allocation counters, and the trace of
  effects. \<open>isOpen\<close> is written by the client library only: the module reads it, and
  the functions below leave it as they find it.
\<close>

record world =
  client :: "nat option"
  connectionPromise :: "nat option"
  connectionError :: "js_error option"
  isOpen :: "nat \<Rightarrow> bool"
  hasJsonMethods :: "nat \<Rightarrow> bool"
  promiseState :: "nat \<Rightarrow> promise_state"
  nextClient :: nat
  nextPromise :: nat
  effects :: "effect list"

text \<open>The state of a freshly loaded module.\<close>

definition initial :: world where
  "initial = \<lparr> client = None, connectionPromise = None, connectionError = None,
     isOpen = (\<lambda>_. False), hasJsonMethods = (\<lambda>_. False), promiseState = (\<lambda>_. Pending),
     nextClient = 0, nextPromise = 0, effects = [] \<rparr>"

text \<open>\<open>client?.isOpen\<close>: false when \<open>client\<close> is \<open>null\<close>.\<close>

definition clientIsOpen :: "world \<Rightarrow> bool" where
  "clientIsOpen s = (case client s of None \<Rightarrow> False | Some c \<Rightarrow> isOpen s c)"

section \<open>getClient\<close>

definition stillConnectingMessage :: string where
  "stillConnectingMessage =
     ''Redis client is currently connecting. Use `await connect()` or ensure the connection promise resolves before calling getClient.''"

definition notConnectedMessage :: string where
  "notConnectedMessage = ''Redis client is not connected. Call connect() first.''"

definition unavailableMessage :: "js_error \<Rightarrow> string" where
  "unavailableMessage e = ''Redis connection unavailable: '' @ message e"

text \<open>
  \<open>getClient\<close> returns the client or throws; the world it leaves behind is part of the
  result, so that what it writes (nothing) can be stated.
\<close>

definition getClient :: "world \<Rightarrow> (js_error + nat) \<times> world" where
  "getClient s =
     (let notReady =
        (case connectionError s of
           Some e \<Rightarrow> Error (unavailableMessage e)
         | None \<Rightarrow>
             (case connectionPromise s of
                Some p \<Rightarrow> Error stillConnectingMessage
              | None \<Rightarrow> Error notConnectedMessage))
      in case client s of
           None \<Rightarrow> (Inl notReady, s)
         | Some c \<Rightarrow> if isOpen s c then (Inr c, s) else (Inl notReady, s))"

section \<open>connect and the callbacks it registers\<close>

definition logEffect :: "effect \<Rightarrow> world \<Rightarrow> world" where
  "logEffect e s = s\<lparr>effects := effects s @ [e]\<rparr>"

text \<open>\<open>typeof options === 'string' ? { url: options } : options\<close>\<close>

definition normaliseOptions :: "connect_arg option \<Rightarrow> redis_client_options option" where
  "normaliseOptions options =
     (case options of
        None \<Rightarrow> None
      | Some (UrlString u) \<Rightarrow> Some \<lparr>url = Some u, database = None\<rparr>
      | Some (OptionsObject opts) \<Rightarrow> Some opts)"

text \<open>
  \<open>connect\<close> is synchronous: it returns a promise. On the slow path everything up to
  \<open>baseClient.connect()\<close> runs before it returns: the client is created, the four
  handlers are registered, the handshake is started, and the new promise is stored.
  The handshake itself settles later, through the callbacks below. The promise that
  \<open>.finally\<close> returns is dropped by the source and is not allocated here.
\<close>

definition connect :: "connect_arg option \<Rightarrow> world \<Rightarrow> nat \<times> world" where
  "connect options s =
     (if clientIsOpen s then
        (nextPromise s,
         s\<lparr>promiseState := (promiseState s)(nextPromise s := Fulfilled),
           nextPromise := Suc (nextPromise s)\<rparr>)
      else
        (case connectionPromise s of
           Some p \<Rightarrow> (p, s)
         | None \<Rightarrow>
             (let baseClient = nextClient s;
                  promiseInstanceBeingReturned = nextPromise s
              in (promiseInstanceBeingReturned,
                  s\<lparr>connectionError := None,
                    nextClient := Suc baseClient,
                    promiseState := (promiseState s)(promiseInstanceBeingReturned := Pending),
                    nextPromise := Suc promiseInstanceBeingReturned,
                    connectionPromise := Some promiseInstanceBeingReturned,
                    effects := effects s @
                      [CreateClient baseClient (normaliseOptions options),
                       RegisterHandler baseClient ''error'',
                       RegisterHandler baseClient ''connect'',
                       RegisterHandler baseClient ''ready'',
                       RegisterHandler baseClient ''end'',
                       ConnectCall baseClient]\<rparr>))))"

text \<open>The number of handshakes started so far.\<close>

fun isConnectCall :: "effect \<Rightarrow> bool" where
  "isConnectCall (ConnectCall c) = True"
| "isConnectCall e = False"

definition handshakes :: "world \<Rightarrow> nat" where
  "handshakes s = length (filter isConnectCall (effects s))"

text \<open>Resolving or rejecting a promise that is already settled does nothing.\<close>

definition settle :: "nat \<Rightarrow> promise_state \<Rightarrow> world \<Rightarrow> world" where
  "settle p st s =
     (if promiseState s p = Pending then s\<lparr>promiseState := (promiseState s)(p := st)\<rparr> else s)"

text \<open>The \<open>'error'\<close> handler.\<close>

definition onError :: "js_error \<Rightarrow> world \<Rightarrow> world" where
  "onError err s =
     (logEffect (ConsoleError ''Redis Client Error:'' (ErrorObj err)) s)
       \<lparr>connectionError := Some err, client := None\<rparr>"

text \<open>
  The \<open>'end'\<close> handler of the attempt whose promise is \<open>p\<close>
  (\<open>promiseInstanceBeingReturned\<close> in its closure).
\<close>

definition onEnd :: "nat \<Rightarrow> world \<Rightarrow> world" where
  "onEnd p s =
     (let wasConnected = (client s \<noteq> None);
          s1 = s\<lparr>client := None\<rparr>;
          s2 = (if connectionPromise s1 = Some p then s1\<lparr>connectionPromise := None\<rparr> else s1)
      in if wasConnected \<and> connectionError s2 = None
         then s2\<lparr>connectionError := Some (Error ''Redis connection closed.'')\<rparr>
         else s2)"

text \<open>
  The \<open>.then\<close> callback of \<open>baseClient.connect()\<close>, for the client \<open>c\<close> and
  the promise \<open>p\<close> of the attempt.
\<close>

definition onHandshakeSuccess :: "nat \<Rightarrow> nat \<Rightarrow> world \<Rightarrow> world" where
  "onHandshakeSuccess c p s =
     settle p Fulfilled
       (s\<lparr>hasJsonMethods := (hasJsonMethods s)(c := True),
          client := Some c,
          connectionError := None\<rparr>)"

text \<open>The \<open>.catch\<close> callback of \<open>baseClient.connect()\<close>.\<close>

definition onHandshakeFailure :: "nat \<Rightarrow> thrown \<Rightarrow> world \<Rightarrow> world" where
  "onHandshakeFailure p err s =
     (let e = toError err;
          s1 = (logEffect (ConsoleError ''Redis connection failed:'' err) s)
                 \<lparr>client := None, connectionError := Some e\<rparr>
      in settle p (Rejected e) s1)"

text \<open>The \<open>.finally\<close> callback on the attempt's promise.\<close>

definition finalizer :: "nat \<Rightarrow> world \<Rightarrow> world" where
  "finalizer p s = (if connectionPromise s = Some p then s\<lparr>connectionPromise := None\<rparr> else s)"

section \<open>disconnect\<close>

text \<open>
  The \<open>finally\<close> block of \<open>disconnect\<close>: the client is reset, and the error is
  kept only when its message contains the word \<open>disconnection\<close>.
\<close>

definition disconnectFinally :: "world \<Rightarrow> world" where
  "disconnectFinally s =
     (let s1 = s\<lparr>client := None\<rparr>
      in case connectionError s1 of
           None \<Rightarrow> s1\<lparr>connectionError := None\<rparr>
         | Some e \<Rightarrow>
             if str_includes (message e) ''disconnection''
             then s1 else s1\<lparr>connectionError := None\<rparr>)"

text \<open>
  \<open>disconnect\<close> awaits \<open>currentClient.quit()\<close>, which belongs to the client library.
  It is the parameter \<open>quit\<close>: given the client and the world at the call, it yields how
  the returned promise settles and the world in which \<open>disconnect\<close> resumes (handlers
  may have run in between).
\<close>

definition disconnect ::
  "(nat \<Rightarrow> world \<Rightarrow> (thrown + unit) \<times> world) \<Rightarrow> world \<Rightarrow> (js_error + unit) \<times> world" where
  "disconnect quit s =
     (let currentClient = client s;
          s1 = s\<lparr>connectionPromise := None\<rparr>;
          notOpen = (Inr (), s1\<lparr>client := None, connectionError := None\<rparr>)
      in case currentClient of
           None \<Rightarrow> notOpen
         | Some c \<Rightarrow>
             if isOpen s1 c then
               (case quit c (logEffect (QuitCall c) s1) of
                  (Inr u, s2) \<Rightarrow> (Inr (), disconnectFinally s2)
                | (Inl err, s2) \<Rightarrow>
                    (let s3 = (logEffect (ConsoleError ''Error during Redis disconnection:'' err) s2)
                                \<lparr>connectionError := Some (toError err), client := None\<rparr>
                     in (Inl (toError err), disconnectFinally s3)))
             else notOpen)"

section \<open>The JSON methods attached to the client\<close>

text \<open>
  \<open>JSON.stringify\<close> and \<open>JSON.parse\<close> belong to the host language, and \<open>set\<close> and
  \<open>get\<close> to the client library. They are parameters of the model. \<open>jsNull\<close> is the
  value \<open>null\<close>, which \<open>getJson\<close> returns for a missing key and for unparsable text.
  A command takes the state of the store and yields how its promise settles and the state
  after it.
\<close>

record 'v json =
  stringify :: "'v \<Rightarrow> thrown + string"
  parse :: "string \<Rightarrow> thrown + 'v"
  jsNull :: 'v

record ('w, 'o) redis_commands =
  set_command :: "string \<Rightarrow> string \<Rightarrow> 'o option \<Rightarrow> 'w \<Rightarrow> (thrown + string option) \<times> 'w"
  get_command :: "string \<Rightarrow> 'w \<Rightarrow> (thrown + string option) \<times> 'w"

datatype 'o request = SetIssued string string "'o option" | GetIssued string

text \<open>
  What a JSON method works on: the store behind the client, the commands issued to it so
  far, and the lines written with \<open>console.error\<close>.
\<close>

record ('w, 'o) client_state =
  store :: 'w
  issued :: "'o request list"
  console :: "(string \<times> thrown) list"

definition consoleError :: "string \<Rightarrow> thrown \<Rightarrow> ('w, 'o) client_state \<Rightarrow> ('w, 'o) client_state" where
  "consoleError msg err s = s\<lparr>console := console s @ [(msg, err)]\<rparr>"

definition setJsonErrorMessage :: "string \<Rightarrow> string" where
  "setJsonErrorMessage key = ''Error setting JSON for key '' @ [CHR 0x22] @ key @ [CHR 0x22] @ '':''"

definition getJsonErrorMessage :: "string \<Rightarrow> string" where
  "getJsonErrorMessage key =
     ''Error parsing JSON for key '' @ [CHR 0x22] @ key @ [CHR 0x22] @
     '': Invalid JSON data stored in Redis.''"

definition setJsonImpl ::
  "'v json \<Rightarrow> ('w, 'o) redis_commands \<Rightarrow> string \<Rightarrow> 'v \<Rightarrow> 'o option \<Rightarrow>
   ('w, 'o) client_state \<Rightarrow> (thrown + string option) \<times> ('w, 'o) client_state" where
  "setJsonImpl J this key objectToStore options s =
     (case stringify J objectToStore of
        Inl error \<Rightarrow> (Inl error, consoleError (setJsonErrorMessage key) error s)
      | Inr jsonString \<Rightarrow>
          (case set_command this key jsonString options (store s) of
             (Inl error, w) \<Rightarrow>
               (Inl error,
                consoleError (setJsonErrorMessage key) error
                  (s\<lparr>store := w, issued := issued s @ [SetIssued key jsonString options]\<rparr>))
           | (Inr reply, w) \<Rightarrow>
               (Inr reply,
                s\<lparr>store := w, issued := issued s @ [SetIssued key jsonString options]\<rparr>)))"

definition getJsonImpl ::
  "'v json \<Rightarrow> ('w, 'o) redis_commands \<Rightarrow> string \<Rightarrow>
   ('w, 'o) client_state \<Rightarrow> (thrown + 'v) \<times> ('w, 'o) client_state" where
  "getJsonImpl J this key s =
     (case get_command this key (store s) of
        (Inl error, w) \<Rightarrow> (Inl error, s\<lparr>store := w, issued := issued s @ [GetIssued key]\<rparr>)
      | (Inr None, w) \<Rightarrow> (Inr (jsNull J), s\<lparr>store := w, issued := issued s @ [GetIssued key]\<rparr>)
      | (Inr (Some jsonString), w) \<Rightarrow>
          (case parse J jsonString of
             Inr v \<Rightarrow> (Inr v, s\<lparr>store := w, issued := issued s @ [GetIssued key]\<rparr>)
           | Inl error \<Rightarrow>
               (Inr (jsNull J),
                consoleError (getJsonErrorMessage key) error
                  (s\<lparr>store := w, issued := issued s @ [GetIssued key]\<rparr>))))"

section \<open>Instances of the parameters\<close>

text \<open>
  A store that keeps the text last written under each key and answers \<open>OK\<close>; options are
  ignored.
\<close>

definition memory_commands :: "(string \<Rightarrow> string option, unit) redis_commands" where
  "memory_commands =
     \<lparr> set_command = (\<lambda>key text options w. (Inr (Some ''OK''), w(key \<mapsto> text))),
       get_command = (\<lambda>key w. (Inr (w key), w)) \<rparr>"

text \<open>A client whose commands are all rejected, as those of a closed client are.\<close>

definition closed_commands :: "(string \<Rightarrow> string option, unit) redis_commands" where
  "closed_commands =
     \<lparr> set_command = (\<lambda>key text options w. (Inl (ErrorObj (Error ''The client is closed'')), w)),
       get_command = (\<lambda>key w. (Inl (ErrorObj (Error ''The client is closed'')), w)) \<rparr>"

text \<open>
  The codec on the three literals \<open>null\<close>, \<open>true\<close> and \<open>false\<close>, and on a value
  that cannot be serialised (a circular structure). Every text other than the three literal
  texts is rejected by this instance.
\<close>

datatype literal = LNull | LBool bool | Circular

definition literal_json :: "literal json" where
  "literal_json =
     \<lparr> stringify = (\<lambda>v. case v of
           LNull \<Rightarrow> Inr ''null''
         | LBool b \<Rightarrow> Inr (if b then ''true'' else ''false'')
         | Circular \<Rightarrow> Inl (ErrorObj (Error ''Converting circular structure to JSON''))),
       parse = (\<lambda>text.
           if text = ''null'' then Inr LNull
           else if text = ''true'' then Inr (LBool True)
           else if text = ''false'' then Inr (LBool False)
           else Inl (ErrorObj (Error ''Unexpected token''))),
       jsNull = LNull \<rparr>"

text \<open>A quit that fails with the given value and lets nothing else run.\<close>

definition failingQuit :: "thrown \<Rightarrow> nat \<Rightarrow> world \<Rightarrow> (thrown + unit) \<times> world" where
  "failingQuit err c s = (Inl err, s)"

text \<open>A quit that succeeds: the library closes the client.\<close>

definition closingQuit :: "nat \<Rightarrow> world \<Rightarrow> (thrown + unit) \<times> world" where
  "closingQuit c s = (Inr (), s\<lparr>isOpen := (isOpen s)(c := False)\<rparr>)"

text \<open>The module while its first \<open>connect\<close> is in flight.\<close>

definition connecting :: world where
  "connecting = snd (connect None initial)"

text \<open>The module after its first \<open>connect\<close> was refused.\<close>

definition refused :: world where
  "refused =
     finalizer 0 (onHandshakeFailure 0 (ErrorObj (Error ''connect ECONNREFUSED'')) connecting)"

text \<open>The module after one successful \<open>connect\<close>: client \<open>0\<close> is open.\<close>

definition connected :: world where
  "connected =
     finalizer 0 (onHandshakeSuccess 0 0 (connecting\<lparr>isOpen := (\<lambda>c. c = 0)\<rparr>))"

text \<open>A client with nothing stored, nothing issued and nothing logged.\<close>

definition emptyClient :: "(string \<Rightarrow> string option, unit) client_state" where
  "emptyClient = \<lparr> store = Map.empty, issued = [], console = [] \<rparr>"
















section \<open>Auxiliary facts\<close>

lemma connectionError_settle: "connectionError (settle p st s) = connectionError s"
  by (simp add: settle_def)

lemma messages_distinct:
  "unavailableMessage e \<noteq> stillConnectingMessage"
  "unavailableMessage e \<noteq> notConnectedMessage"
  "stillConnectingMessage \<noteq> notConnectedMessage"
  by (simp_all add: unavailableMessage_def stillConnectingMessage_def notConnectedMessage_def)

lemma connect_open:
  "clientIsOpen s \<Longrightarrow>
   connect a s = (nextPromise s,
     s\<lparr>promiseState := (promiseState s)(nextPromise s := Fulfilled),
       nextPromise := Suc (nextPromise s)\<rparr>)"
  by (simp add: connect_def)

lemma connect_pending:
  "\<not> clientIsOpen s \<Longrightarrow> connectionPromise s = Some p \<Longrightarrow> connect a s = (p, s)"
  by (simp add: connect_def)

lemma connect_fresh:
  "\<not> clientIsOpen s \<Longrightarrow> connectionPromise s = None \<Longrightarrow>
   connect a s = (nextPromise s,
     s\<lparr>connectionError := None,
       nextClient := Suc (nextClient s),
       promiseState := (promiseState s)(nextPromise s := Pending),
       nextPromise := Suc (nextPromise s),
       connectionPromise := Some (nextPromise s),
       effects := effects s @
         [CreateClient (nextClient s) (normaliseOptions a),
          RegisterHandler (nextClient s) ''error'',
          RegisterHandler (nextClient s) ''connect'',
          RegisterHandler (nextClient s) ''ready'',
          RegisterHandler (nextClient s) ''end'',
          ConnectCall (nextClient s)]\<rparr>)"
  by (simp add: connect_def Let_def)

lemma connect_keeps_closed: "\<not> clientIsOpen s \<Longrightarrow> \<not> clientIsOpen (snd (connect a s))"
  by (cases "connectionPromise s") (auto simp: connect_fresh connect_pending clientIsOpen_def split: option.splits)

lemma connect_leaves_pending:
  "\<not> clientIsOpen s \<Longrightarrow> connectionPromise (snd (connect a s)) = Some (fst (connect a s))"
  by (cases "connectionPromise s") (simp_all add: connect_fresh connect_pending)

lemma connect_handshakes:
  "\<not> clientIsOpen s \<Longrightarrow>
   handshakes (snd (connect a s)) =
     (if connectionPromise s = None then Suc (handshakes s) else handshakes s)"
  by (cases "connectionPromise s") (simp_all add: connect_fresh connect_pending handshakes_def)

lemma disconnect_not_open_eq:
  "\<not> clientIsOpen s \<Longrightarrow>
   disconnect quit s =
     (Inr (), s\<lparr>connectionPromise := None, client := None, connectionError := None\<rparr>)"
  by (simp add: disconnect_def clientIsOpen_def Let_def split: option.splits)

lemma disconnect_quit_fails:
  "client s = Some c \<Longrightarrow> isOpen s c \<Longrightarrow>
   quit c (logEffect (QuitCall c) (s\<lparr>connectionPromise := None\<rparr>)) = (Inl err, s2) \<Longrightarrow>
   fst (disconnect quit s) = Inl (toError err) \<and>
   client (snd (disconnect quit s)) = None \<and>
   connectionError (snd (disconnect quit s)) =
     (if str_includes (message (toError err)) ''disconnection'' then Some (toError err) else None)"
  by (simp add: disconnect_def disconnectFinally_def logEffect_def Let_def)

lemma world_facts:
  "client connected = Some 0" "isOpen connected 0" "clientIsOpen connected"
  "connectionPromise connected = None" "connectionError connected = None"
  "\<not> clientIsOpen connecting" "connectionError connecting = None"
  "connectionPromise connecting = Some 0"
  "\<not> clientIsOpen refused" "connectionError refused = Some (Error ''connect ECONNREFUSED'')"
  "connectionPromise refused = None"
  "\<not> clientIsOpen initial" "connectionError initial = None" "connectionPromise initial = None"
  by (simp_all add: connected_def connecting_def refused_def initial_def connect_def
      clientIsOpen_def onHandshakeSuccess_def onHandshakeFailure_def finalizer_def settle_def
      logEffect_def Let_def)













section \<open>What getClient reports\<close>

text \<open>
  C1. \<open>getClient\<close> follows a fixed order. An open client is returned. Otherwise a recorded
  error gives the "connection unavailable" error, whose message ends with the message of the
  recorded error. Otherwise a pending attempt gives the "still connecting" error. Otherwise
  the "not connected" error is thrown. The four conditions exclude each other and cover every
  state, and the three messages differ from each other, so exactly one outcome occurs.
\<close>

theorem getClient_priority:
  "(client s = Some c \<and> isOpen s c \<longrightarrow> fst (getClient s) = Inr c) \<and>
   (\<not> clientIsOpen s \<and> connectionError s = Some e \<longrightarrow>
      fst (getClient s) = Inl (Error (''Redis connection unavailable: '' @ message e))) \<and>
   (\<not> clientIsOpen s \<and> connectionError s = None \<and> connectionPromise s = Some p \<longrightarrow>
      fst (getClient s) = Inl (Error stillConnectingMessage)) \<and>
   (\<not> clientIsOpen s \<and> connectionError s = None \<and> connectionPromise s = None \<longrightarrow>
      fst (getClient s) = Inl (Error notConnectedMessage)) \<and>
   ''Redis connection unavailable: '' @ message e \<noteq> stillConnectingMessage \<and>
   ''Redis connection unavailable: '' @ message e \<noteq> notConnectedMessage \<and>
   stillConnectingMessage \<noteq> notConnectedMessage"
  using messages_distinct
  by (auto simp: getClient_def clientIsOpen_def unavailableMessage_def Let_def split: option.splits)

theorem getClient_priority_witness:
  "(client connected = Some 0 \<and> isOpen connected 0 \<and> fst (getClient connected) = Inr 0) \<and>
   (\<not> clientIsOpen refused \<and> connectionError refused = Some (Error ''connect ECONNREFUSED'') \<and>
      fst (getClient refused) = Inl (Error ''Redis connection unavailable: connect ECONNREFUSED'')) \<and>
   (\<not> clientIsOpen connecting \<and> connectionError connecting = None \<and>
      connectionPromise connecting = Some 0 \<and>
      fst (getClient connecting) = Inl (Error stillConnectingMessage)) \<and>
   (\<not> clientIsOpen initial \<and> connectionError initial = None \<and>
      connectionPromise initial = None \<and>
      fst (getClient initial) = Inl (Error notConnectedMessage))"
  using getClient_priority [of connected 0 "Error []" 0]
    getClient_priority [of refused 0 "Error ''connect ECONNREFUSED''" 0]
    getClient_priority [of connecting 0 "Error []" 0]
    getClient_priority [of initial 0 "Error []" 0]
  by (simp add: world_facts)

text \<open>
  C9. \<open>getClient\<close> only reads: whether it returns or throws, the world after the call is
  the world before it, so the three module variables are unchanged, no client is created and
  no effect is added to the trace.
\<close>

theorem getClient_frame: "snd (getClient s) = s"
  by (simp add: getClient_def Let_def split: option.splits)

section \<open>What connect does when there is nothing to start\<close>

text \<open>
  C2. With an open client, \<open>connect\<close> returns a new promise that is already fulfilled and
  leaves the module variables, the clients and the trace of effects as they were. With a
  pending attempt and no open client, it returns the stored promise and changes nothing.
  Hence, from any state without an open client, a second \<open>connect\<close> right after the first
  returns the promise of the first and changes nothing, and the two calls together start one
  handshake when none was pending and none otherwise.
\<close>

theorem connect_idempotent_coalescing:
  "(clientIsOpen s \<longrightarrow>
      promiseState (snd (connect a s)) (fst (connect a s)) = Fulfilled \<and>
      client (snd (connect a s)) = client s \<and>
      connectionPromise (snd (connect a s)) = connectionPromise s \<and>
      connectionError (snd (connect a s)) = connectionError s \<and>
      isOpen (snd (connect a s)) = isOpen s \<and>
      nextClient (snd (connect a s)) = nextClient s \<and>
      effects (snd (connect a s)) = effects s) \<and>
   (\<not> clientIsOpen s \<and> connectionPromise s = Some p \<longrightarrow> connect a s = (p, s)) \<and>
   (\<not> clientIsOpen s \<longrightarrow>
      fst (connect b (snd (connect a s))) = fst (connect a s) \<and>
      snd (connect b (snd (connect a s))) = snd (connect a s) \<and>
      handshakes (snd (connect b (snd (connect a s)))) =
        (if connectionPromise s = None then Suc (handshakes s) else handshakes s))"
proof (intro conjI impI)
  assume nopen: "\<not> clientIsOpen s"
  let ?s1 = "snd (connect a s)"
  have closed1: "\<not> clientIsOpen ?s1"
    using nopen by (rule connect_keeps_closed)
  have pending1: "connectionPromise ?s1 = Some (fst (connect a s))"
    using nopen by (rule connect_leaves_pending)
  have again: "connect b ?s1 = (fst (connect a s), ?s1)"
    using closed1 pending1 by (rule connect_pending)
  show "fst (connect b ?s1) = fst (connect a s)"
    by (simp add: again)
  show "snd (connect b ?s1) = ?s1"
    by (simp add: again)
  show "handshakes (snd (connect b ?s1)) =
      (if connectionPromise s = None then Suc (handshakes s) else handshakes s)"
    using nopen by (simp add: again connect_handshakes)
qed (simp_all add: connect_open connect_pending)

theorem connect_idempotent_coalescing_witness:
  "(clientIsOpen connected \<and>
      promiseState (snd (connect None connected)) (fst (connect None connected)) = Fulfilled \<and>
      client (snd (connect None connected)) = Some 0 \<and>
      effects (snd (connect None connected)) = effects connected) \<and>
   (\<not> clientIsOpen connecting \<and> connectionPromise connecting = Some 0 \<and>
      connect (Some (UrlString ''redis://localhost:6379/0'')) connecting = (0, connecting)) \<and>
   (\<not> clientIsOpen initial \<and>
      fst (connect None (snd (connect None initial))) = fst (connect None initial) \<and>
      handshakes initial = 0 \<and>
      handshakes (snd (connect None (snd (connect None initial)))) = 1)"
proof -
  have first: "clientIsOpen connected"
    and second: "\<not> clientIsOpen connecting \<and> connectionPromise connecting = Some 0"
    and third: "\<not> clientIsOpen initial"
    by (simp_all add: world_facts)
  have none: "connectionPromise initial = None" "handshakes initial = 0"
    by (simp_all add: initial_def handshakes_def)
  have a: "promiseState (snd (connect None connected)) (fst (connect None connected)) = Fulfilled \<and>
      client (snd (connect None connected)) = Some 0 \<and>
      effects (snd (connect None connected)) = effects connected"
    using connect_idempotent_coalescing [of connected None 0 None] first
    by (simp add: world_facts)
  have b: "connect (Some (UrlString ''redis://localhost:6379/0'')) connecting = (0, connecting)"
    using connect_idempotent_coalescing
      [of connecting "Some (UrlString ''redis://localhost:6379/0'')" 0 None] second
    by blast
  have c: "fst (connect None (snd (connect None initial))) = fst (connect None initial) \<and>
      handshakes (snd (connect None (snd (connect None initial)))) = 1"
    using connect_idempotent_coalescing [of initial None 0 None] third none
    by (metis One_nat_def)
  show ?thesis
    using first second third none a b c by blast
qed

section \<open>The recorded error across the transitions\<close>

text \<open>
  C3. \<open>connectionError\<close> is \<open>null\<close> after a \<open>connect\<close> that starts a fresh attempt and
  after a successful handshake; it is the failure after a failed handshake and after an
  \<open>'error'\<close> event; after an \<open>'end'\<close> event it is the generic "connection closed"
  error exactly when a client was set and no error was recorded, and otherwise it is what it
  was, so a recorded error is never replaced by the generic one.
\<close>

theorem lastError_transitions:
  "(\<not> clientIsOpen s \<and> connectionPromise s = None \<longrightarrow>
      connectionError (snd (connect a s)) = None) \<and>
   connectionError (onHandshakeSuccess c p s) = None \<and>
   connectionError (onHandshakeFailure p err s) = Some (toError err) \<and>
   connectionError (onError e s) = Some e \<and>
   connectionError (onEnd p s) =
     (if client s \<noteq> None \<and> connectionError s = None
      then Some (Error ''Redis connection closed.'') else connectionError s) \<and>
   (connectionError s = Some e \<longrightarrow> connectionError (onEnd p s) = Some e)"
  by (simp add: connect_fresh onHandshakeSuccess_def onHandshakeFailure_def onError_def
      onEnd_def logEffect_def connectionError_settle Let_def)

theorem lastError_transitions_witness:
  "(\<not> clientIsOpen refused \<and> connectionPromise refused = None \<and>
      connectionError refused = Some (Error ''connect ECONNREFUSED'') \<and>
      connectionError (snd (connect None refused)) = None) \<and>
   (connectionError (onError (Error ''Socket closed unexpectedly'') connected) =
      Some (Error ''Socket closed unexpectedly'') \<and>
    connectionError (onEnd 0 (onError (Error ''Socket closed unexpectedly'') connected)) =
      Some (Error ''Socket closed unexpectedly''))"
  using lastError_transitions [of refused None 0 0 "ErrorObj (Error [])" "Error []"]
    lastError_transitions [of "onError (Error ''Socket closed unexpectedly'') connected" None 0 0
      "ErrorObj (Error [])" "Error ''Socket closed unexpectedly''"]
    lastError_transitions [of connected None 0 0
      "ErrorObj (Error [])" "Error ''Socket closed unexpectedly''"]
  by (simp add: world_facts)

section \<open>What disconnect leaves behind\<close>

text \<open>
  C5. Without an open client, \<open>disconnect\<close> resolves, whatever \<open>quit\<close> would do, and
  afterwards \<open>client\<close> and \<open>connectionError\<close> are both \<open>null\<close>.
\<close>

theorem disconnect_without_open_client:
  "\<not> clientIsOpen s \<Longrightarrow>
   fst (disconnect quit s) = Inr () \<and>
   client (snd (disconnect quit s)) = None \<and>
   connectionError (snd (disconnect quit s)) = None"
  by (simp add: disconnect_not_open_eq)

theorem disconnect_without_open_client_witness:
  "\<not> clientIsOpen refused \<and> connectionError refused = Some (Error ''connect ECONNREFUSED'') \<and>
   fst (disconnect closingQuit refused) = Inr () \<and>
   client (snd (disconnect closingQuit refused)) = None \<and>
   connectionError (snd (disconnect closingQuit refused)) = None"
  using disconnect_without_open_client [of refused closingQuit]
  by (simp add: world_facts)

text \<open>
  C4. The connected module, whose \<open>quit\<close> is rejected with the error
  "Socket closed unexpectedly": \<open>disconnect\<close> rejects with that error and resets
  \<open>client\<close>, but \<open>connectionError\<close> is \<open>null\<close> afterwards, and \<open>getClient\<close> throws
  the "not connected" error, not the "connection unavailable" one.
\<close>

theorem disconnect_failure_error_lost:
  "fst (disconnect (failingQuit (ErrorObj (Error ''Socket closed unexpectedly''))) connected) =
     Inl (Error ''Socket closed unexpectedly'') \<and>
   client (snd (disconnect (failingQuit (ErrorObj (Error ''Socket closed unexpectedly''))) connected)) = None \<and>
   connectionError (snd (disconnect (failingQuit (ErrorObj (Error ''Socket closed unexpectedly''))) connected)) = None \<and>
   fst (getClient (snd (disconnect (failingQuit (ErrorObj (Error ''Socket closed unexpectedly''))) connected))) =
     Inl (Error notConnectedMessage)"
  by (simp add: disconnect_def disconnectFinally_def failingQuit_def connected_def connect_def
      initial_def clientIsOpen_def onHandshakeSuccess_def finalizer_def settle_def logEffect_def
      getClient_def Let_def)

section \<open>The JSON methods\<close>




text \<open>
  C7. \<open>getJson\<close> returns \<open>null\<close> when the key is absent and when the stored text does
  not parse; it rejects when \<open>get\<close> itself fails, with the failure of \<open>get\<close>, and in no
  other case.
\<close>

theorem getJson_soft_failures:
  "(get_command this key (store s) = (Inr None, w) \<longrightarrow>
      fst (getJsonImpl J this key s) = Inr (jsNull J)) \<and>
   (get_command this key (store s) = (Inr (Some text), w) \<and> parse J text = Inl err \<longrightarrow>
      fst (getJsonImpl J this key s) = Inr (jsNull J)) \<and>
   (get_command this key (store s) = (Inl err, w) \<longrightarrow>
      fst (getJsonImpl J this key s) = Inl err) \<and>
   (fst (getJsonImpl J this key s) = Inl err \<longrightarrow>
      fst (get_command this key (store s)) = Inl err)"
  by (auto simp: getJsonImpl_def split: prod.splits sum.splits option.splits)

theorem getJson_soft_failures_witness:
  "(get_command memory_commands ''non:existent:key'' (store emptyClient) = (Inr None, Map.empty) \<and>
      fst (getJsonImpl literal_json memory_commands ''non:existent:key'' emptyClient) = Inr LNull) \<and>
   (get_command memory_commands ''test:invalid:json''
        (store (emptyClient\<lparr>store := [''test:invalid:json'' \<mapsto> ''{ invalid json data'']\<rparr>)) =
        (Inr (Some ''{ invalid json data''), [''test:invalid:json'' \<mapsto> ''{ invalid json data'']) \<and>
      parse literal_json ''{ invalid json data'' = Inl (ErrorObj (Error ''Unexpected token'')) \<and>
      fst (getJsonImpl literal_json memory_commands ''test:invalid:json''
        (emptyClient\<lparr>store := [''test:invalid:json'' \<mapsto> ''{ invalid json data'']\<rparr>)) = Inr LNull) \<and>
   (get_command closed_commands ''test:error:get'' (store emptyClient) =
        (Inl (ErrorObj (Error ''The client is closed'')), Map.empty) \<and>
      fst (getJsonImpl literal_json closed_commands ''test:error:get'' emptyClient) =
        Inl (ErrorObj (Error ''The client is closed'')))"
  using getJson_soft_failures [of memory_commands "''non:existent:key''" emptyClient Map.empty
      literal_json "[]" "ErrorObj (Error [])"]
    getJson_soft_failures [of memory_commands "''test:invalid:json''"
      "emptyClient\<lparr>store := [''test:invalid:json'' \<mapsto> ''{ invalid json data'']\<rparr>"
      "[''test:invalid:json'' \<mapsto> ''{ invalid json data'']"
      literal_json "''{ invalid json data''" "ErrorObj (Error ''Unexpected token'')"]
    getJson_soft_failures [of closed_commands "''test:error:get''" emptyClient Map.empty
      literal_json "[]" "ErrorObj (Error ''The client is closed'')"]
  by (simp add: memory_commands_def closed_commands_def literal_json_def emptyClient_def)

text \<open>
  C8. \<open>setJson\<close> rejects with the error of \<open>JSON.stringify\<close> when that throws, and with
  the error of \<open>set\<close> when that fails, both unchanged; when both succeed it returns the
  reply of \<open>set\<close>.
\<close>

theorem setJson_propagates:
  "(stringify J v = Inl err \<longrightarrow> fst (setJsonImpl J this key v options s) = Inl err) \<and>
   (stringify J v = Inr text \<and>
    set_command this key text options (store s) = (Inl err, w) \<longrightarrow>
      fst (setJsonImpl J this key v options s) = Inl err) \<and>
   (stringify J v = Inr text \<and>
    set_command this key text options (store s) = (Inr reply, w) \<longrightarrow>
      fst (setJsonImpl J this key v options s) = Inr reply)"
  by (simp add: setJsonImpl_def)

theorem setJson_propagates_witness:
  "(stringify literal_json Circular =
      Inl (ErrorObj (Error ''Converting circular structure to JSON'')) \<and>
    fst (setJsonImpl literal_json memory_commands ''k'' Circular None emptyClient) =
      Inl (ErrorObj (Error ''Converting circular structure to JSON''))) \<and>
   (stringify literal_json LNull = Inr ''null'' \<and>
    set_command closed_commands ''test:error:set'' ''null'' None (store emptyClient) =
      (Inl (ErrorObj (Error ''The client is closed'')), Map.empty) \<and>
    fst (setJsonImpl literal_json closed_commands ''test:error:set'' LNull None emptyClient) =
      Inl (ErrorObj (Error ''The client is closed''))) \<and>
   (set_command memory_commands ''test:null'' ''null'' None (store emptyClient) =
      (Inr (Some ''OK''), [''test:null'' \<mapsto> ''null'']) \<and>
    fst (setJsonImpl literal_json memory_commands ''test:null'' LNull None emptyClient) =
      Inr (Some ''OK''))"
  using setJson_propagates [of literal_json Circular
      "ErrorObj (Error ''Converting circular structure to JSON'')" memory_commands "''k''" None
      emptyClient "[]" Map.empty None]
    setJson_propagates [of literal_json LNull "ErrorObj (Error ''The client is closed'')"
      closed_commands "''test:error:set''" None emptyClient "''null''" Map.empty None]
    setJson_propagates [of literal_json LNull "ErrorObj (Error [])"
      memory_commands "''test:null''" None emptyClient "''null''"
      "[''test:null'' \<mapsto> ''null'']" "Some ''OK''"]
  by (simp add: memory_commands_def closed_commands_def literal_json_def emptyClient_def)

text \<open>
  C10. When serialisation throws, \<open>setJson\<close> rejects with that error, the store is what it
  was, no command has been issued, and the result does not depend on the client's commands.
\<close>

theorem setJson_serialization_failure_atomic:
  "stringify J v = Inl err \<Longrightarrow>
   fst (setJsonImpl J this key v options s) = Inl err \<and>
   store (snd (setJsonImpl J this key v options s)) = store s \<and>
   issued (snd (setJsonImpl J this key v options s)) = issued s \<and>
   setJsonImpl J this' key v options s = setJsonImpl J this key v options s"
  by (simp add: setJsonImpl_def consoleError_def)

theorem setJson_serialization_failure_atomic_witness:
  "stringify literal_json Circular =
     Inl (ErrorObj (Error ''Converting circular structure to JSON'')) \<and>
   fst (setJsonImpl literal_json memory_commands ''user:1'' Circular None
     (emptyClient\<lparr>store := [''user:1'' \<mapsto> ''true'']\<rparr>)) =
     Inl (ErrorObj (Error ''Converting circular structure to JSON'')) \<and>
   store (snd (setJsonImpl literal_json memory_commands ''user:1'' Circular None
     (emptyClient\<lparr>store := [''user:1'' \<mapsto> ''true'']\<rparr>))) ''user:1'' = Some ''true'' \<and>
   issued (snd (setJsonImpl literal_json memory_commands ''user:1'' Circular None
     (emptyClient\<lparr>store := [''user:1'' \<mapsto> ''true'']\<rparr>))) = []"
proof -
  have a: "stringify literal_json Circular =
     Inl (ErrorObj (Error ''Converting circular structure to JSON''))"
    by (simp add: literal_json_def)
  show ?thesis
    using a setJson_serialization_failure_atomic [OF a, of memory_commands "''user:1''" None
        "emptyClient\<lparr>store := [''user:1'' \<mapsto> ''true'']\<rparr>" memory_commands]
    by (simp add: emptyClient_def)
qed

end
